theory Spec2Isabelle
  imports Complex_Main "HOL-Library.Word"
begin

section \<open>The embedding shim of remembrances-mcp (internal/llama\_shim/llama\_shim.c)\<close>

text \<open>
  The shim wraps the llama.cpp C API behind a pointer-only ABI.  Its one function with
  logic of its own is \<open>rm_llama_embed_text\<close>, together with the two static helpers
  \<open>rm_copy_f32\<close> and \<open>rm_l2_normalize\<close>.  The llama.cpp engine itself is a bundled
  library whose code is not part of the sources: only its prototypes (llama\_min.h) are.
  The engine functions that compute or change something (the tokenizer, the forward
  pass, the memory wipe, the thread setter) and \<open>malloc\<close> are therefore parameters of the
  model; the opaque handles are records holding what the shim reads from them.
\<close>

subsection \<open>Machine types\<close>

type_synonym int32 = "32 word"
type_synonym size_t = "64 word"
type_synonym llama_token = int32

text \<open>
  \<open>int32_t\<close> values are 32-bit words read in two's complement, and \<open>size_t\<close> is 64 bits
  wide.  The comparisons of the source are the signed ones (\<open><s\<close>, \<open>\<le>s\<close>);
  \<open>(int32_t) x\<close> of a \<open>size_t\<close> keeps the low 32 bits (\<open>ucast\<close>), as the compilers of the
  platforms concerned define that conversion; \<open>(size_t) n\<close> of an \<open>int32_t\<close> extends the
  sign (\<open>scast\<close>); unary minus wraps, so that \<open>-INT32_MIN\<close>, which C leaves undefined, is
  \<open>INT32_MIN\<close>.
\<close>

subsection \<open>Floating-point arithmetic\<close>

text \<open>
  The C operations on \<open>float\<close> (type \<open>'f\<close>) and \<open>double\<close> (type \<open>'d\<close>) that
  \<open>rm_l2_normalize\<close> uses, as a parameter.
\<close>

record ('f, 'd) fp_arith =
  f_mul :: "'f \<Rightarrow> 'f \<Rightarrow> 'f"
  f_to_d :: "'f \<Rightarrow> 'd"
  d_to_f :: "'d \<Rightarrow> 'f"
  d_zero :: "'d"
  d_one :: "'d"
  d_add :: "'d \<Rightarrow> 'd \<Rightarrow> 'd"
  d_mul :: "'d \<Rightarrow> 'd \<Rightarrow> 'd"
  d_div :: "'d \<Rightarrow> 'd \<Rightarrow> 'd"
  d_sqrt :: "'d \<Rightarrow> 'd"
  d_le :: "'d \<Rightarrow> 'd \<Rightarrow> bool"

subsection \<open>The static helpers\<close>

text \<open>
  \<open>memcpy(dst, src, k * sizeof(float))\<close>: the first \<open>k\<close> floats of \<open>dst\<close> are replaced by
  the first \<open>k\<close> floats of \<open>src\<close>.  (C requires both buffers to hold \<open>k\<close> floats.)
\<close>

definition memcpy_f32 :: "'f list \<Rightarrow> 'f list \<Rightarrow> nat \<Rightarrow> 'f list" where
  "memcpy_f32 dst src k = take k src @ drop k dst"

text \<open>llama\_shim.c, lines 9--14.  The result is the content of \<open>dst\<close> afterwards.\<close>

definition rm_copy_f32 :: "'f list \<Rightarrow> 'f list \<Rightarrow> int32 \<Rightarrow> 'f list" where
  "rm_copy_f32 dst src n = (if n \<le>s 0 then dst else memcpy_f32 dst src (unat n))"

text \<open>The first loop of \<open>rm_l2_normalize\<close> (lines 21--25), from index \<open>i\<close> on.\<close>

function l2_sum_loop :: "('f, 'd) fp_arith \<Rightarrow> 'f list \<Rightarrow> nat \<Rightarrow> nat \<Rightarrow> 'd \<Rightarrow> 'd" where
  "l2_sum_loop fp src n i sum_acc =
     (if i < n
      then (let v = f_to_d fp (src ! i)
            in l2_sum_loop fp src n (Suc i) (d_add fp sum_acc (d_mul fp v v)))
      else sum_acc)"
  by pat_completeness auto
termination
  by (relation "measure (\<lambda>(fp, src, n, i, sum_acc). n - i)") auto

text \<open>The second loop (lines 34--36), from index \<open>i\<close> on.\<close>

function l2_scale_loop :: "('f, 'd) fp_arith \<Rightarrow> 'f \<Rightarrow> 'f list \<Rightarrow> nat \<Rightarrow> nat \<Rightarrow> 'f list \<Rightarrow> 'f list" where
  "l2_scale_loop fp inv_norm src n i dst =
     (if i < n
      then l2_scale_loop fp inv_norm src n (Suc i) (dst[i := f_mul fp (src ! i) inv_norm])
      else dst)"
  by pat_completeness auto
termination
  by (relation "measure (\<lambda>(fp, inv_norm, src, n, i, dst). n - i)") auto

declare l2_sum_loop.simps [simp del] l2_scale_loop.simps [simp del]

text \<open>The norm that \<open>rm_l2_normalize\<close> computes for \<open>n > 0\<close> (lines 21--27).\<close>

definition l2_norm :: "('f, 'd) fp_arith \<Rightarrow> 'f list \<Rightarrow> int32 \<Rightarrow> 'd" where
  "l2_norm fp src n = d_sqrt fp (l2_sum_loop fp src (unat n) 0 (d_zero fp))"

text \<open>
  llama\_shim.c, lines 16--37.  \<open>dst\<close> is the caller's buffer and \<open>src\<close> the engine's: the
  two do not overlap.
\<close>

definition rm_l2_normalize :: "('f, 'd) fp_arith \<Rightarrow> 'f list \<Rightarrow> 'f list \<Rightarrow> int32 \<Rightarrow> 'f list" where
  "rm_l2_normalize fp dst src n =
     (if n \<le>s 0 then dst
      else
        let nrm = l2_norm fp src n in
        if d_le fp nrm (d_zero fp) then rm_copy_f32 dst src n
        else
          let inv_norm = d_to_f fp (d_div fp (d_one fp) nrm)
          in l2_scale_loop fp inv_norm src (unat n) 0 dst)"

subsection \<open>Engine handles\<close>

text \<open>
  \<open>struct llama_model\<close> is opaque to the shim, which reads two things from it:
  \<open>llama_model_n_embd\<close> and \<open>llama_model_get_vocab\<close> (a null pointer is \<open>None\<close>).
\<close>

record 'vocab llama_model =
  model_n_embd :: int32
  model_vocab :: "'vocab option"

text \<open>
  \<open>struct llama_context\<close>: the two thread settings, the memory object that
  \<open>llama_get_memory\<close> returns (\<open>None\<close> for the null pointer, which the engine returns for
  a context that has no memory object) and the two embedding accessors
  \<open>llama_get_embeddings_seq\<close> and \<open>llama_get_embeddings\<close> (\<open>None\<close> for a null result).
\<close>

record ('mem, 'f) llama_context =
  ctx_n_threads :: int32
  ctx_n_threads_batch :: int32
  ctx_memory :: "'mem option"
  ctx_embeddings_seq :: "int32 \<Rightarrow> 'f list option"
  ctx_embeddings :: "'f list option"

text \<open>\<open>struct llama_batch\<close> as \<open>llama_batch_get_one\<close> fills it: a view of the token buffer.\<close>

record llama_batch =
  batch_n_tokens :: int32
  batch_token :: "llama_token list"

definition llama_batch_get_one :: "llama_token list \<Rightarrow> int32 \<Rightarrow> llama_batch" where
  "llama_batch_get_one tokens n = \<lparr>batch_n_tokens = n, batch_token = tokens\<rparr>"

text \<open>
  The functions the shim calls and whose results it cannot compute itself:
  \<^item> \<open>llama_memory_clear mem data\<close>: the memory object after the call;
  \<^item> \<open>llama_set_n_threads ctx n_threads n_threads_batch\<close>: the context after the call
    (what the engine makes of the two counts it is given is the engine's);
  \<^item> \<open>llama_tokenize vocab text text_len n_tokens_max add_special parse_special\<close>:
    the return value and the content of the token buffer after the call;
  \<^item> \<open>llama_decode ctx batch\<close>: the return value and the context after the call;
  \<^item> \<open>malloc_ok size\<close>: whether \<open>malloc(size)\<close> returns a non-null pointer.
\<close>

record ('mem, 'f, 'vocab) engine =
  llama_memory_clear :: "'mem \<Rightarrow> bool \<Rightarrow> 'mem"
  llama_set_n_threads :: "('mem, 'f) llama_context \<Rightarrow> int32 \<Rightarrow> int32 \<Rightarrow> ('mem, 'f) llama_context"
  llama_tokenize ::
    "'vocab \<Rightarrow> string \<Rightarrow> int32 \<Rightarrow> int32 \<Rightarrow> bool \<Rightarrow> bool \<Rightarrow> int32 \<times> llama_token list"
  llama_decode :: "('mem, 'f) llama_context \<Rightarrow> llama_batch \<Rightarrow> int32 \<times> ('mem, 'f) llama_context"
  malloc_ok :: "size_t \<Rightarrow> bool"

text \<open>The calls the shim makes, in the order it makes them.\<close>

datatype call =
  Call_model_n_embd
| Call_get_memory
| Call_memory_clear bool
| Call_set_n_threads int32 int32
| Call_model_get_vocab
| Call_malloc size_t
| Call_free
| Call_tokenize int32 int32
| Call_batch_get_one int32
| Call_decode
| Call_get_embeddings_seq int32
| Call_get_embeddings

subsection \<open>\<open>rm_llama_embed_text\<close>, step by step\<close>

text \<open>Lines 139--143: reset the memory state.\<close>

definition embed_reset ::
  "('mem, 'f, 'vocab) engine \<Rightarrow> ('mem, 'f) llama_context \<Rightarrow> ('mem, 'f) llama_context \<times> call list" where
  "embed_reset E c =
     (case ctx_memory c of
        None \<Rightarrow> (c, [Call_get_memory])
      | Some mem \<Rightarrow>
          (c\<lparr>ctx_memory := Some (llama_memory_clear E mem True)\<rparr>,
           [Call_get_memory, Call_memory_clear True]))"

text \<open>Lines 145--148: apply the per-call thread settings.\<close>

definition embed_threads ::
  "('mem, 'f, 'vocab) engine \<Rightarrow> ('mem, 'f) llama_context \<Rightarrow> int32 \<Rightarrow> int32
     \<Rightarrow> ('mem, 'f) llama_context \<times> call list" where
  "embed_threads E c n_threads n_threads_batch =
     (if 0 <s n_threads \<or> 0 <s n_threads_batch
      then (llama_set_n_threads E c n_threads n_threads_batch,
            [Call_set_n_threads n_threads n_threads_batch])
      else (c, []))"

text \<open>Lines 139--148: the context as the later steps see it, with the calls made.\<close>

definition embed_prepare ::
  "('mem, 'f, 'vocab) engine \<Rightarrow> ('mem, 'f) llama_context \<Rightarrow> int32 \<Rightarrow> int32
     \<Rightarrow> ('mem, 'f) llama_context \<times> call list" where
  "embed_prepare E c n_threads n_threads_batch =
     (let (c1, calls1) = embed_reset E c;
          (c2, calls2) = embed_threads E c1 n_threads n_threads_batch
      in (c2, calls1 @ calls2))"

text \<open>
  Lines 155--180: tokenization.  The result is \<open>Inl rc\<close> for an early return with code
  \<open>rc\<close>, or \<open>Inr (tokens, n_tokens)\<close>, with the calls made.
\<close>

definition first_capacity :: "string \<Rightarrow> int32" where
  "first_capacity text =
     (let text_len = (of_nat (length text) :: size_t);
          n_tokens_max = (ucast (text_len + 8) :: int32)
      in if n_tokens_max <s 16 then 16 else n_tokens_max)"

definition token_bytes :: "int32 \<Rightarrow> size_t" where
  "token_bytes n = (scast n :: size_t) * 4"

definition embed_tokenize ::
  "('mem, 'f, 'vocab) engine \<Rightarrow> 'vocab \<Rightarrow> string \<Rightarrow> bool \<Rightarrow> bool
     \<Rightarrow> (int32 + llama_token list \<times> int32) \<times> call list" where
  "embed_tokenize E vocab text add_special parse_special =
     (let text_len = (of_nat (length text) :: size_t);
          n_tokens_max = first_capacity text
      in
      if \<not> malloc_ok E (token_bytes n_tokens_max)
      then (Inl (- 4), [Call_malloc (token_bytes n_tokens_max)])
      else
        let (n_tokens, tokens) =
              llama_tokenize E vocab text (ucast text_len) n_tokens_max add_special parse_special;
            calls1 = [Call_malloc (token_bytes n_tokens_max),
                      Call_tokenize (ucast text_len) n_tokens_max]
        in
        if n_tokens <s 0
        then
          let needed = - n_tokens in
          if \<not> malloc_ok E (token_bytes needed)
          then (Inl (- 4), calls1 @ [Call_free, Call_malloc (token_bytes needed)])
          else
            let (n_tokens2, tokens2) =
                  llama_tokenize E vocab text (ucast text_len) needed add_special parse_special;
                calls2 = calls1 @ [Call_free, Call_malloc (token_bytes needed),
                                   Call_tokenize (ucast text_len) needed]
            in
            if n_tokens2 \<le>s 0 then (Inl (- 5), calls2 @ [Call_free])
            else (Inr (tokens2, n_tokens2), calls2)
        else
          if n_tokens \<le>s 0 then (Inl (- 5), calls1 @ [Call_free])
          else (Inr (tokens, n_tokens), calls1))"

text \<open>Lines 191--194: fetch the embedding, the pooled one of sequence 0 first.\<close>

definition embed_fetch :: "('mem, 'f) llama_context \<Rightarrow> 'f list option \<times> call list" where
  "embed_fetch c =
     (case ctx_embeddings_seq c 0 of
        Some e \<Rightarrow> (Some e, [Call_get_embeddings_seq 0])
      | None \<Rightarrow> (ctx_embeddings c, [Call_get_embeddings_seq 0, Call_get_embeddings]))"

text \<open>
  What a call leaves behind: the return code, the context, the content of the caller's
  output buffer and the calls made.
\<close>

record ('c, 'o) embed_result =
  res_rc :: int32
  res_ctx :: "'c"
  res_out :: "'o"
  res_calls :: "call list"

text \<open>Lines 134--206: the body of \<open>rm_llama_embed_text\<close> once the four pointers are non-null.\<close>

definition embed_body ::
  "('mem, 'f, 'vocab) engine \<Rightarrow> ('f, 'd) fp_arith \<Rightarrow> ('mem, 'f) llama_context
     \<Rightarrow> 'vocab llama_model \<Rightarrow> string \<Rightarrow> bool \<Rightarrow> bool \<Rightarrow> 'f list \<Rightarrow> int32 \<Rightarrow> int32 \<Rightarrow> int32
     \<Rightarrow> int32 \<Rightarrow> (('mem, 'f) llama_context, 'f list) embed_result" where
  "embed_body E fp c model text add_special parse_special out out_len n_threads
       n_threads_batch normalize_mode =
     (let n_embd = model_n_embd model in
      if n_embd \<le>s 0 \<or> out_len <s n_embd
      then \<lparr>res_rc = - 2, res_ctx = c, res_out = out, res_calls = [Call_model_n_embd]\<rparr>
      else
        let (c2, calls_p) = embed_prepare E c n_threads n_threads_batch;
            calls_v = Call_model_n_embd # calls_p @ [Call_model_get_vocab]
        in
        case model_vocab model of
          None \<Rightarrow> \<lparr>res_rc = - 3, res_ctx = c2, res_out = out, res_calls = calls_v\<rparr>
        | Some vocab \<Rightarrow>
            (case embed_tokenize E vocab text add_special parse_special of
               (Inl rc, calls_t) \<Rightarrow>
                 \<lparr>res_rc = rc, res_ctx = c2, res_out = out, res_calls = calls_v @ calls_t\<rparr>
             | (Inr (tokens, n_tokens), calls_t) \<Rightarrow>
                 let batch = llama_batch_get_one tokens n_tokens;
                     (rc, c3) = llama_decode E c2 batch;
                     calls_d = calls_v @ calls_t @ [Call_batch_get_one n_tokens, Call_decode, Call_free]
                 in
                 if rc \<noteq> 0
                 then \<lparr>res_rc = rc, res_ctx = c3, res_out = out, res_calls = calls_d\<rparr>
                 else
                   (case embed_fetch c3 of
                      (None, calls_e) \<Rightarrow>
                        \<lparr>res_rc = - 6, res_ctx = c3, res_out = out, res_calls = calls_d @ calls_e\<rparr>
                    | (Some embd, calls_e) \<Rightarrow>
                        \<lparr>res_rc = 0, res_ctx = c3,
                         res_out = (if normalize_mode = 2 then rm_l2_normalize fp out embd n_embd
                                    else rm_copy_f32 out embd n_embd),
                         res_calls = calls_d @ calls_e\<rparr>)))"

text \<open>
  Lines 118--207.  A null pointer argument is \<open>None\<close>; with one, the call returns \<open>-1\<close>
  and has touched nothing.
\<close>

definition rm_llama_embed_text ::
  "('mem, 'f, 'vocab) engine \<Rightarrow> ('f, 'd) fp_arith \<Rightarrow> ('mem, 'f) llama_context option
     \<Rightarrow> 'vocab llama_model option \<Rightarrow> string option \<Rightarrow> bool \<Rightarrow> bool \<Rightarrow> 'f list option
     \<Rightarrow> int32 \<Rightarrow> int32 \<Rightarrow> int32 \<Rightarrow> int32
     \<Rightarrow> (('mem, 'f) llama_context option, 'f list option) embed_result" where
  "rm_llama_embed_text E fp ctx model text add_special parse_special out out_len n_threads
       n_threads_batch normalize_mode =
     (case (ctx, model, text, out) of
        (Some c, Some m, Some t, Some buf) \<Rightarrow>
          (let r = embed_body E fp c m t add_special parse_special buf out_len n_threads
                     n_threads_batch normalize_mode
           in \<lparr>res_rc = res_rc r, res_ctx = Some (res_ctx r), res_out = Some (res_out r),
               res_calls = res_calls r\<rparr>)
      | _ \<Rightarrow> \<lparr>res_rc = - 1, res_ctx = ctx, res_out = out, res_calls = []\<rparr>)"

subsection \<open>A small engine for running the shim on concrete inputs\<close>

text \<open>
  Exact arithmetic on the reals in the place of \<open>float\<close> and \<open>double\<close>.
\<close>

definition real_arith :: "(real, real) fp_arith" where
  "real_arith =
     \<lparr>f_mul = (\<lambda>x y. x * y), f_to_d = (\<lambda>x. x), d_to_f = (\<lambda>x. x), d_zero = 0, d_one = 1,
      d_add = (\<lambda>x y. x + y), d_mul = (\<lambda>x y. x * y), d_div = (\<lambda>x y. x / y),
      d_sqrt = sqrt, d_le = (\<lambda>x y. x \<le> y)\<rparr>"

text \<open>
  An engine in the shape of the one the shim is linked against:
  \<^item> the memory object is the list of the tokens it caches, and wiping it empties it;
  \<^item> the thread setter stores both counts it is given;
  \<^item> the tokenizer makes three tokens of every byte, and answers with minus the number
    of tokens it needs when the buffer is too small, leaving the buffer as it is (empty
    here);
  \<^item> the forward pass appends the batch to the memory (when there is one) and leaves
    as the pooled embedding of sequence 0 the vector \<open>[3, 4, 0, k]\<close>, with \<open>k\<close> the number of
    tokens then in the memory;
  \<^item> \<open>malloc\<close> succeeds up to a mebibyte.
\<close>

definition toy_tokens :: "string \<Rightarrow> llama_token list" where
  "toy_tokens text = concat (map (\<lambda>ch. [of_char ch, 1, 2]) text)"

definition toy_decode ::
  "(llama_token list, real) llama_context \<Rightarrow> llama_batch
     \<Rightarrow> int32 \<times> (llama_token list, real) llama_context" where
  "toy_decode c b =
     (let seen = (case ctx_memory c of None \<Rightarrow> [] | Some cells \<Rightarrow> cells)
                   @ take (unat (batch_n_tokens b)) (batch_token b)
      in (0, c\<lparr>ctx_memory := map_option (\<lambda>cells. seen) (ctx_memory c),
                ctx_embeddings_seq := (\<lambda>seq. if seq = 0 then Some [3, 4, 0, real (length seen)] else None)\<rparr>))"

definition toy_engine :: "(llama_token list, real, unit) engine" where
  "toy_engine =
     \<lparr>llama_memory_clear = (\<lambda>mem data. []),
      llama_set_n_threads = (\<lambda>c n_threads n_threads_batch.
         c\<lparr>ctx_n_threads := n_threads, ctx_n_threads_batch := n_threads_batch\<rparr>),
      llama_tokenize = (\<lambda>vocab text text_len n_tokens_max add_special parse_special.
         if unat n_tokens_max < length (toy_tokens text)
         then (- of_nat (length (toy_tokens text)), [])
         else (of_nat (length (toy_tokens text)), toy_tokens text)),
      llama_decode = toy_decode,
      malloc_ok = (\<lambda>size. size \<le> 1048576)\<rparr>"

definition toy_model :: "unit llama_model" where
  "toy_model = \<lparr>model_n_embd = 4, model_vocab = Some ()\<rparr>"

definition toy_context :: "llama_token list option \<Rightarrow> (llama_token list, real) llama_context" where
  "toy_context mem =
     \<lparr>ctx_n_threads = 8, ctx_n_threads_batch = 8, ctx_memory = mem,
      ctx_embeddings_seq = (\<lambda>seq. None), ctx_embeddings = None\<rparr>"

text \<open>
  The same engine with a tokenizer that reports overflow (\<open>INT32_MIN\<close>) whatever it is
  given.
\<close>

definition overflow_engine :: "(llama_token list, real, unit) engine" where
  "overflow_engine =
     toy_engine\<lparr>llama_tokenize :=
       (\<lambda>vocab text text_len n_tokens_max add_special parse_special. (- 2147483648, []))\<rparr>"

subsection \<open>The Token Buffer Manager as the specification words it\<close>

text \<open>
  Section 4.1 of the specification, with capacities as mathematical integers: the first
  capacity is \<open>byte_length(text) + 8\<close> floored at 16; a negative tokenizer result asks for
  a buffer of exactly its absolute value and one retry; a non-positive final count is
  \<open>EmptyOrFailedTokenization\<close>, a failed allocation is \<open>BufferAllocationFailed\<close>.  The
  return codes of the two errors are those of the source (lines 163, 172 and 179).
\<close>

definition BufferAllocationFailed :: int32 where
  "BufferAllocationFailed = - 4"

definition EmptyOrFailedTokenization :: int32 where
  "EmptyOrFailedTokenization = - 5"

definition spec_token_buffer ::
  "('mem, 'f, 'vocab) engine \<Rightarrow> 'vocab \<Rightarrow> string \<Rightarrow> bool \<Rightarrow> bool
     \<Rightarrow> (int32 + llama_token list \<times> int32) \<times> call list" where
  "spec_token_buffer E vocab text add_special parse_special =
     (let byte_length = int (length text);
          capacity = max (byte_length + 8) 16;
          allocate = (\<lambda>cap. Call_malloc (of_int (4 * cap)));
          invoke = (\<lambda>cap. Call_tokenize (of_int byte_length) (of_int cap))
      in
      if \<not> malloc_ok E (of_int (4 * capacity))
      then (Inl BufferAllocationFailed, [allocate capacity])
      else
        let (count, buffer) = llama_tokenize E vocab text (of_int byte_length) (of_int capacity)
                                add_special parse_special
        in
        if sint count < 0
        then
          let required = \<bar>sint count\<bar> in
          if \<not> malloc_ok E (of_int (4 * required))
          then (Inl BufferAllocationFailed,
                [allocate capacity, invoke capacity, Call_free, allocate required])
          else
            let (count2, buffer2) = llama_tokenize E vocab text (of_int byte_length)
                                      (of_int required) add_special parse_special
            in
            if sint count2 \<le> 0
            then (Inl EmptyOrFailedTokenization,
                  [allocate capacity, invoke capacity, Call_free, allocate required,
                   invoke required, Call_free])
            else (Inr (buffer2, count2),
                  [allocate capacity, invoke capacity, Call_free, allocate required,
                   invoke required])
        else
          if sint count \<le> 0
          then (Inl EmptyOrFailedTokenization, [allocate capacity, invoke capacity, Call_free])
          else (Inr (buffer, count), [allocate capacity, invoke capacity]))"

text \<open>The tokenizer invocations and the thread-setter calls among the calls.\<close>

fun is_tokenize :: "call \<Rightarrow> bool" where
  "is_tokenize (Call_tokenize text_len n_tokens_max) = True"
| "is_tokenize other = False"

fun is_set_n_threads :: "call \<Rightarrow> bool" where
  "is_set_n_threads (Call_set_n_threads n_threads n_threads_batch) = True"
| "is_set_n_threads other = False"

section \<open>Properties\<close>

subsection \<open>Auxiliary facts\<close>

lemmas toy_defs = toy_engine_def toy_tokens_def toy_model_def toy_context_def toy_decode_def

lemmas run_defs = rm_llama_embed_text_def embed_body_def embed_prepare_def embed_reset_def
  embed_threads_def embed_fetch_def embed_tokenize_def first_capacity_def token_bytes_def
  llama_batch_get_one_def rm_copy_f32_def memcpy_f32_def Let_def
  word_sle_eq word_sless_alt

lemma embed_tokenize_rc:
  "embed_tokenize E v t a p = (Inl rc, calls) \<Longrightarrow> rc = - 4 \<or> rc = - 5"
  by (auto simp: embed_tokenize_def Let_def split: if_splits prod.splits)

lemma embed_tokenize_nonzero: "embed_tokenize E v t a p = (Inl rc, calls) \<Longrightarrow> rc \<noteq> 0"
  by (auto dest: embed_tokenize_rc)

lemma embed_tokenize_no_clear: "Call_memory_clear d \<notin> set (snd (embed_tokenize E v t a p))"
  by (auto simp: embed_tokenize_def Let_def split: if_splits prod.splits)

lemma embed_prepare_wipe:
  assumes wipe: "\<forall>mem mem'. llama_memory_clear E mem True = llama_memory_clear E mem' True"
  shows "embed_prepare E (c\<lparr>ctx_memory := Some memA\<rparr>) nt ntb
           = embed_prepare E (c\<lparr>ctx_memory := Some memB\<rparr>) nt ntb"
proof -
  have "llama_memory_clear E memA True = llama_memory_clear E memB True"
    using wipe by blast
  then show ?thesis
    by (simp add: embed_prepare_def embed_reset_def)
qed

lemma embed_body_wipe:
  assumes wipe: "\<forall>mem mem'. llama_memory_clear E mem True = llama_memory_clear E mem' True"
  shows "res_rc (embed_body E fp (c\<lparr>ctx_memory := Some memA\<rparr>) m t a p buf out_len nt ntb nm)
           = res_rc (embed_body E fp (c\<lparr>ctx_memory := Some memB\<rparr>) m t a p buf out_len nt ntb nm)
       \<and> res_out (embed_body E fp (c\<lparr>ctx_memory := Some memA\<rparr>) m t a p buf out_len nt ntb nm)
           = res_out (embed_body E fp (c\<lparr>ctx_memory := Some memB\<rparr>) m t a p buf out_len nt ntb nm)"
  by (simp add: embed_body_def Let_def
      embed_prepare_wipe [OF wipe, where memA = memA and memB = memB])

lemma embed_body_error_out:
  "res_rc (embed_body E fp c m t a p buf out_len nt ntb nm) \<noteq> 0
     \<Longrightarrow> res_out (embed_body E fp c m t a p buf out_len nt ntb nm) = buf"
  by (auto simp: embed_body_def Let_def split: if_splits prod.splits option.splits sum.splits)

lemma embed_body_success:
  "res_rc (embed_body E fp c m t a p buf out_len nt ntb nm) = 0 \<Longrightarrow>
   \<exists>embd. fst (embed_fetch (res_ctx (embed_body E fp c m t a p buf out_len nt ntb nm))) = Some embd \<and>
     res_out (embed_body E fp c m t a p buf out_len nt ntb nm)
       = (if nm = 2 then rm_l2_normalize fp buf embd (model_n_embd m)
          else rm_copy_f32 buf embd (model_n_embd m)) \<and> \<not> model_n_embd m \<le>s 0"
  by (auto simp: embed_body_def Let_def dest: embed_tokenize_nonzero
      split: if_splits prod.splits option.splits sum.splits)

lemma toy_context_memory:
  "toy_context (Some mem) = (toy_context None)\<lparr>ctx_memory := Some mem\<rparr>"
  by (simp add: toy_context_def)

subsection \<open>Independence from earlier calls\<close>

text \<open>
  C1.  The return code and the content of the output buffer do not depend on what
  earlier calls have left in the context's memory object: two calls with the same
  arguments on a context, started with different contents \<open>memA\<close> and \<open>memB\<close> of the memory
  object, return the same code and leave the same output buffer.  The engine's side of
  this is stated as the hypothesis: the result of \<open>llama_memory_clear(mem, true)\<close> does
  not depend on what the memory held.  The engine is a deterministic function of the
  context and its arguments, as everywhere in this model.
\<close>

theorem embed_text_independent_of_prior_memory:
  assumes wipe: "\<forall>mem mem'. llama_memory_clear E mem True = llama_memory_clear E mem' True"
  shows "res_rc (rm_llama_embed_text E fp (Some (c\<lparr>ctx_memory := Some memA\<rparr>)) model tx a p
                   out out_len nt ntb nm)
           = res_rc (rm_llama_embed_text E fp (Some (c\<lparr>ctx_memory := Some memB\<rparr>)) model tx a p
                       out out_len nt ntb nm)
       \<and> res_out (rm_llama_embed_text E fp (Some (c\<lparr>ctx_memory := Some memA\<rparr>)) model tx a p
                    out out_len nt ntb nm)
           = res_out (rm_llama_embed_text E fp (Some (c\<lparr>ctx_memory := Some memB\<rparr>)) model tx a p
                        out out_len nt ntb nm)"
  using embed_body_wipe [OF wipe, where memA = memA and memB = memB and fp = fp and c = c]
  by (simp add: rm_llama_embed_text_def Let_def split: option.splits)

theorem embed_text_independent_of_prior_memory_witness:
  "(\<forall>mem mem'. llama_memory_clear toy_engine mem True = llama_memory_clear toy_engine mem' True)
   \<and> res_rc (rm_llama_embed_text toy_engine real_arith (Some (toy_context (Some [7, 7])))
               (Some toy_model) (Some ''hi'') True False (Some [9, 9, 9, 9, 9]) 5 0 0 0) = 0
   \<and> res_rc (rm_llama_embed_text toy_engine real_arith (Some (toy_context (Some [1, 2, 3])))
               (Some toy_model) (Some ''hi'') True False (Some [9, 9, 9, 9, 9]) 5 0 0 0) = 0
   \<and> res_out (rm_llama_embed_text toy_engine real_arith (Some (toy_context (Some [7, 7])))
               (Some toy_model) (Some ''hi'') True False (Some [9, 9, 9, 9, 9]) 5 0 0 0)
       = Some [3, 4, 0, 6, 9]
   \<and> res_out (rm_llama_embed_text toy_engine real_arith (Some (toy_context (Some [1, 2, 3])))
               (Some toy_model) (Some ''hi'') True False (Some [9, 9, 9, 9, 9]) 5 0 0 0)
       = Some [3, 4, 0, 6, 9]"
proof -
  have h: "\<forall>mem mem'. llama_memory_clear toy_engine mem True = llama_memory_clear toy_engine mem' True"
    by (simp add: toy_engine_def)
  have rc: "res_rc (rm_llama_embed_text toy_engine real_arith (Some (toy_context (Some [7, 7])))
               (Some toy_model) (Some ''hi'') True False (Some [9, 9, 9, 9, 9]) 5 0 0 0) = 0"
    by (simp add: run_defs toy_defs)
  have out: "res_out (rm_llama_embed_text toy_engine real_arith (Some (toy_context (Some [7, 7])))
               (Some toy_model) (Some ''hi'') True False (Some [9, 9, 9, 9, 9]) 5 0 0 0)
       = Some [3, 4, 0, 6, 9]"
    by (simp add: run_defs toy_defs)
  show ?thesis
    using h rc out
      embed_text_independent_of_prior_memory [OF h, where c = "toy_context None"
        and memA = "[7, 7]" and memB = "[1, 2, 3]" and fp = real_arith and model = "Some toy_model"
        and tx = "Some ''hi''" and a = True and p = False and out = "Some [9, 9, 9, 9, 9]"
        and out_len = 5 and nt = 0 and ntb = 0 and nm = 0]
    by (simp add: toy_context_memory [symmetric])
qed

subsection \<open>The course of a call that passes the checks\<close>

lemma embed_reset_ctx:
  "fst (embed_reset E c)
     = (case ctx_memory c of
          None \<Rightarrow> c
        | Some mem \<Rightarrow> c\<lparr>ctx_memory := Some (llama_memory_clear E mem True)\<rparr>)"
  by (simp add: embed_reset_def split: option.splits)

lemma embed_reset_calls:
  "snd (embed_reset E c)
     = (case ctx_memory c of
          None \<Rightarrow> [Call_get_memory]
        | Some mem \<Rightarrow> [Call_get_memory, Call_memory_clear True])"
  by (simp add: embed_reset_def split: option.splits)

lemma embed_prepare_ctx:
  "fst (embed_prepare E c nt ntb)
     = (if 0 <s nt \<or> 0 <s ntb then llama_set_n_threads E (fst (embed_reset E c)) nt ntb
        else fst (embed_reset E c))"
  by (simp add: embed_prepare_def embed_threads_def split: prod.splits)

lemma embed_prepare_calls:
  "snd (embed_prepare E c nt ntb)
     = snd (embed_reset E c) @ (if 0 <s nt \<or> 0 <s ntb then [Call_set_n_threads nt ntb] else [])"
  by (simp add: embed_prepare_def embed_threads_def split: prod.splits)

lemma embed_body_ctx:
  assumes "\<not> model_n_embd m \<le>s 0" "\<not> out_len <s model_n_embd m"
  shows "res_ctx (embed_body E fp c m t a p buf out_len nt ntb nm)
     = (case model_vocab m of
          None \<Rightarrow> fst (embed_prepare E c nt ntb)
        | Some v \<Rightarrow>
            (case fst (embed_tokenize E v t a p) of
               Inl e \<Rightarrow> fst (embed_prepare E c nt ntb)
             | Inr (tokens, n) \<Rightarrow>
                 snd (llama_decode E (fst (embed_prepare E c nt ntb))
                        (llama_batch_get_one tokens n))))"
  using assms
  by (auto simp: embed_body_def Let_def split: prod.splits option.splits sum.splits)

lemma embed_body_rc:
  assumes "\<not> model_n_embd m \<le>s 0" "\<not> out_len <s model_n_embd m"
  shows "res_rc (embed_body E fp c m t a p buf out_len nt ntb nm)
     = (case model_vocab m of
          None \<Rightarrow> - 3
        | Some v \<Rightarrow>
            (case fst (embed_tokenize E v t a p) of
               Inl e \<Rightarrow> e
             | Inr (tokens, n) \<Rightarrow>
                 (let d = llama_decode E (fst (embed_prepare E c nt ntb))
                            (llama_batch_get_one tokens n)
                  in if fst d \<noteq> 0 then fst d
                     else (case fst (embed_fetch (snd d)) of None \<Rightarrow> - 6 | Some embd \<Rightarrow> 0))))"
  using assms
  by (auto simp: embed_body_def Let_def split: prod.splits option.splits sum.splits)

lemma embed_body_calls:
  assumes "\<not> model_n_embd m \<le>s 0" "\<not> out_len <s model_n_embd m"
  shows "res_calls (embed_body E fp c m t a p buf out_len nt ntb nm)
     = Call_model_n_embd # snd (embed_prepare E c nt ntb) @ Call_model_get_vocab #
       (case model_vocab m of
          None \<Rightarrow> []
        | Some v \<Rightarrow>
            snd (embed_tokenize E v t a p) @
            (case fst (embed_tokenize E v t a p) of
               Inl e \<Rightarrow> []
             | Inr (tokens, n) \<Rightarrow>
                 (let d = llama_decode E (fst (embed_prepare E c nt ntb))
                            (llama_batch_get_one tokens n)
                  in [Call_batch_get_one n, Call_decode, Call_free] @
                     (if fst d \<noteq> 0 then [] else snd (embed_fetch (snd d))))))"
  using assms
  by (auto simp: embed_body_def Let_def split: prod.splits option.splits sum.splits)

lemma embed_tokenize_no_set_threads:
  "filter is_set_n_threads (snd (embed_tokenize E v t a p)) = []"
  by (auto simp: embed_tokenize_def Let_def split: if_splits prod.splits)

lemma embed_fetch_no_set_threads: "filter is_set_n_threads (snd (embed_fetch c3)) = []"
  by (auto simp: embed_fetch_def split: option.splits)

lemma embed_reset_no_set_threads: "filter is_set_n_threads (snd (embed_reset E c)) = []"
  by (auto simp: embed_reset_def split: option.splits)

lemma embed_fetch_no_clear: "Call_memory_clear d \<notin> set (snd (embed_fetch c3))"
  by (auto simp: embed_fetch_def split: option.splits)

lemma embed_fetch_calls_subset:
  "set (snd (embed_fetch c3)) \<subseteq> {Call_get_embeddings_seq 0, Call_get_embeddings}"
  by (auto simp: embed_fetch_def split: option.splits)

subsection \<open>The memory reset\<close>

text \<open>
  C2 (as the code has it).  In a call that passes the null checks and the output-buffer
  check, the first thing done after reading the embedding dimension is to fetch the
  memory object.  When the context has one, \<open>llama_memory_clear(mem, true)\<close> is the very
  next call and the only clear of the call; when \<open>llama_get_memory\<close> returns the null
  pointer, the \<open>if (mem != NULL)\<close> of line 141 skips the clear and no clear happens in
  that call at all.  In both cases the call then goes on in the same way, on the context
  \<open>c1\<close> that the reset leaves (wiped, or as it was): the thread settings (giving \<open>c2\<close>), the
  vocabulary fetch (\<open>-3\<close> without one), the tokenization, and, when that yields tokens,
  the forward pass, which is run on \<open>c2\<close>.
\<close>

theorem embed_text_reset_when_memory_present:
  assumes guards: "\<not> model_n_embd m \<le>s 0" "\<not> out_len <s model_n_embd m"
  shows "let r = rm_llama_embed_text E fp (Some c) (Some m) (Some t) a p (Some buf) out_len nt ntb nm;
             c1 = (case ctx_memory c of
                     None \<Rightarrow> c
                   | Some mem \<Rightarrow> c\<lparr>ctx_memory := Some (llama_memory_clear E mem True)\<rparr>);
             reset_calls = (case ctx_memory c of
                              None \<Rightarrow> [Call_get_memory]
                            | Some mem \<Rightarrow> [Call_get_memory, Call_memory_clear True]);
             c2 = (if 0 <s nt \<or> 0 <s ntb then llama_set_n_threads E c1 nt ntb else c1);
             thread_calls = (if 0 <s nt \<or> 0 <s ntb then [Call_set_n_threads nt ntb] else []);
             first_calls = Call_model_n_embd # reset_calls @ thread_calls @ [Call_model_get_vocab]
         in (\<exists>rest. res_calls r = Call_model_n_embd # reset_calls @ rest \<and>
                    (\<forall>d. Call_memory_clear d \<notin> set rest))
          \<and> (case model_vocab m of
                None \<Rightarrow> res_rc r = - 3 \<and> res_ctx r = Some c2 \<and> res_calls r = first_calls
              | Some v \<Rightarrow>
                  (case fst (embed_tokenize E v t a p) of
                     Inl e \<Rightarrow>
                       res_rc r = e \<and> res_ctx r = Some c2 \<and>
                       res_calls r = first_calls @ snd (embed_tokenize E v t a p)
                   | Inr (tokens, n) \<Rightarrow>
                       res_ctx r = Some (snd (llama_decode E c2 (llama_batch_get_one tokens n))) \<and>
                       (\<exists>fetch_calls.
                          res_calls r = first_calls @ snd (embed_tokenize E v t a p)
                            @ [Call_batch_get_one n, Call_decode, Call_free] @ fetch_calls \<and>
                          set fetch_calls \<subseteq> {Call_get_embeddings_seq 0, Call_get_embeddings})))"
proof -
  let ?b = "embed_body E fp c m t a p buf out_len nt ntb nm"
  let ?c2 = "fst (embed_prepare E c nt ntb)"
  have r: "rm_llama_embed_text E fp (Some c) (Some m) (Some t) a p (Some buf) out_len nt ntb nm
       = \<lparr>res_rc = res_rc ?b, res_ctx = Some (res_ctx ?b), res_out = Some (res_out ?b),
          res_calls = res_calls ?b\<rparr>"
    by (simp add: rm_llama_embed_text_def Let_def)
  note ctx = embed_body_ctx [OF guards, of E fp c t a p buf nt ntb nm]
  note rc = embed_body_rc [OF guards, of E fp c t a p buf nt ntb nm]
  note calls = embed_body_calls [OF guards, of E fp c t a p buf nt ntb nm]
  show ?thesis
  proof (cases "model_vocab m")
    case None
    then show ?thesis
      unfolding r Let_def
      by (simp add: ctx rc calls embed_prepare_ctx embed_prepare_calls embed_reset_ctx
          embed_reset_calls split: option.splits)
  next
    case (Some v)
    show ?thesis
    proof (cases "fst (embed_tokenize E v t a p)")
      case (Inl e)
      then show ?thesis
        unfolding r Let_def using Some embed_tokenize_no_clear [of _ E v t a p]
        by (simp add: ctx rc calls embed_prepare_ctx embed_prepare_calls embed_reset_ctx
            embed_reset_calls split: option.splits)
    next
      case (Inr tn)
      obtain tokens n where tn: "tn = (tokens, n)"
        by (cases tn) auto
      let ?d = "llama_decode E ?c2 (llama_batch_get_one tokens n)"
      let ?fetch = "if fst ?d \<noteq> 0 then [] else snd (embed_fetch (snd ?d))"
      have fs: "set ?fetch \<subseteq> {Call_get_embeddings_seq 0, Call_get_embeddings}"
        using embed_fetch_calls_subset [of "snd ?d"] by simp
      have fc: "\<And>d. Call_memory_clear d \<notin> set ?fetch"
        using embed_fetch_no_clear [of _ "snd ?d"] by simp
      have cl: "res_calls ?b = Call_model_n_embd # snd (embed_prepare E c nt ntb)
                  @ Call_model_get_vocab # snd (embed_tokenize E v t a p)
                  @ [Call_batch_get_one n, Call_decode, Call_free] @ ?fetch"
        using Some Inr tn by (simp add: calls Let_def)
      have cx: "res_ctx ?b = snd ?d"
        using Some Inr tn by (simp add: ctx)
      have "\<exists>fetch_calls.
              res_calls ?b = Call_model_n_embd # snd (embed_prepare E c nt ntb)
                  @ Call_model_get_vocab # snd (embed_tokenize E v t a p)
                  @ [Call_batch_get_one n, Call_decode, Call_free] @ fetch_calls \<and>
              set fetch_calls \<subseteq> {Call_get_embeddings_seq 0, Call_get_embeddings}"
        using cl fs by blast
      moreover have "\<exists>rest. res_calls ?b = Call_model_n_embd # snd (embed_reset E c) @ rest \<and>
                       (\<forall>d. Call_memory_clear d \<notin> set rest)"
      proof (intro exI conjI allI)
        show "res_calls ?b = Call_model_n_embd # snd (embed_reset E c)
                @ ((if 0 <s nt \<or> 0 <s ntb then [Call_set_n_threads nt ntb] else [])
                   @ Call_model_get_vocab # snd (embed_tokenize E v t a p)
                   @ [Call_batch_get_one n, Call_decode, Call_free] @ ?fetch)"
          by (simp add: cl embed_prepare_calls)
        show "Call_memory_clear d \<notin> set ((if 0 <s nt \<or> 0 <s ntb then [Call_set_n_threads nt ntb] else [])
                   @ Call_model_get_vocab # snd (embed_tokenize E v t a p)
                   @ [Call_batch_get_one n, Call_decode, Call_free] @ ?fetch)" for d
          using embed_tokenize_no_clear [of d E v t a p] fc [of d] by simp
      qed
      ultimately show ?thesis
        unfolding r Let_def using Some Inr tn cx
        by (simp add: embed_prepare_ctx embed_prepare_calls embed_reset_ctx embed_reset_calls
            split: option.splits)
    qed
  qed
qed

theorem embed_text_reset_when_memory_present_witness:
  "\<not> model_n_embd toy_model \<le>s 0 \<and> \<not> (5 :: int32) <s model_n_embd toy_model
   \<and> ctx_memory (toy_context (Some [7, 7])) = Some [7, 7]
   \<and> fst (embed_tokenize toy_engine () ''hi'' True False) = Inr ([104, 1, 2, 105, 1, 2], 6)
   \<and> res_ctx (rm_llama_embed_text toy_engine real_arith (Some (toy_context (Some [7, 7])))
        (Some toy_model) (Some ''hi'') True False (Some [9, 9, 9, 9, 9]) 5 0 0 0)
       = Some (snd (llama_decode toy_engine
                 ((toy_context (Some [7, 7]))\<lparr>ctx_memory := Some (llama_memory_clear toy_engine [7, 7] True)\<rparr>)
                 (llama_batch_get_one [104, 1, 2, 105, 1, 2] 6)))
   \<and> map_option ctx_memory (res_ctx (rm_llama_embed_text toy_engine real_arith
        (Some (toy_context (Some [7, 7]))) (Some toy_model) (Some ''hi'') True False
        (Some [9, 9, 9, 9, 9]) 5 0 0 0))
       = Some (Some [104, 1, 2, 105, 1, 2])
   \<and> res_calls (rm_llama_embed_text toy_engine real_arith (Some (toy_context (Some [7, 7])))
        (Some toy_model) (Some ''hi'') True False (Some [9, 9, 9, 9, 9]) 5 0 0 0)
       = [Call_model_n_embd, Call_get_memory, Call_memory_clear True, Call_model_get_vocab,
          Call_malloc 64, Call_tokenize 2 16, Call_batch_get_one 6, Call_decode, Call_free,
          Call_get_embeddings_seq 0]"
proof -
  have g1: "\<not> model_n_embd toy_model \<le>s 0"
    by (simp add: toy_model_def word_sle_eq)
  have g2: "\<not> (5 :: int32) <s model_n_embd toy_model"
    by (simp add: toy_model_def word_sless_alt)
  have mem: "ctx_memory (toy_context (Some [7, 7])) = Some [7, 7]"
    by (simp add: toy_context_def)
  have v: "model_vocab toy_model = Some ()"
    by (simp add: toy_model_def)
  have tk: "fst (embed_tokenize toy_engine () ''hi'' True False) = Inr ([104, 1, 2, 105, 1, 2], 6)"
    by (simp add: run_defs toy_defs)
  have nothreads: "\<not> ((0 :: int32) <s 0 \<or> (0 :: int32) <s 0)"
    by (simp add: word_sless_alt)
  from embed_text_reset_when_memory_present [OF g1 g2, of toy_engine real_arith
      "toy_context (Some [7, 7])" "''hi''" True False "[9, 9, 9, 9, 9]" 0 0 0]
  have ctx: "res_ctx (rm_llama_embed_text toy_engine real_arith (Some (toy_context (Some [7, 7])))
        (Some toy_model) (Some ''hi'') True False (Some [9, 9, 9, 9, 9]) 5 0 0 0)
       = Some (snd (llama_decode toy_engine
                 ((toy_context (Some [7, 7]))\<lparr>ctx_memory := Some (llama_memory_clear toy_engine [7, 7] True)\<rparr>)
                 (llama_batch_get_one [104, 1, 2, 105, 1, 2] 6)))"
    by (simp add: Let_def mem v tk nothreads)
  have after: "ctx_memory (snd (llama_decode toy_engine
                 ((toy_context (Some [7, 7]))\<lparr>ctx_memory := Some (llama_memory_clear toy_engine [7, 7] True)\<rparr>)
                 (llama_batch_get_one [104, 1, 2, 105, 1, 2] 6)))
       = Some [104, 1, 2, 105, 1, 2]"
    by (simp add: run_defs toy_defs)
  have calls: "res_calls (rm_llama_embed_text toy_engine real_arith (Some (toy_context (Some [7, 7])))
        (Some toy_model) (Some ''hi'') True False (Some [9, 9, 9, 9, 9]) 5 0 0 0)
       = [Call_model_n_embd, Call_get_memory, Call_memory_clear True, Call_model_get_vocab,
          Call_malloc 64, Call_tokenize 2 16, Call_batch_get_one 6, Call_decode, Call_free,
          Call_get_embeddings_seq 0]"
    by (simp add: run_defs toy_defs)
  show ?thesis
    using g1 g2 mem tk ctx after calls by simp
qed

text \<open>
  C2 as stated fails on a context without a memory object: the call below tokenizes and
  runs the forward pass, and succeeds, without any memory clear.
\<close>

theorem embed_text_no_reset_without_memory:
  "res_rc (rm_llama_embed_text toy_engine real_arith (Some (toy_context None))
            (Some toy_model) (Some ''hi'') True False (Some [9, 9, 9, 9, 9]) 5 0 0 0) = 0
   \<and> res_calls (rm_llama_embed_text toy_engine real_arith (Some (toy_context None))
            (Some toy_model) (Some ''hi'') True False (Some [9, 9, 9, 9, 9]) 5 0 0 0)
       = [Call_model_n_embd, Call_get_memory, Call_model_get_vocab, Call_malloc 64,
          Call_tokenize 2 16, Call_batch_get_one 6, Call_decode, Call_free,
          Call_get_embeddings_seq 0]
   \<and> Call_memory_clear True \<notin> set (res_calls (rm_llama_embed_text toy_engine real_arith
            (Some (toy_context None)) (Some toy_model) (Some ''hi'') True False
            (Some [9, 9, 9, 9, 9]) 5 0 0 0))"
  by (simp add: run_defs toy_defs)

subsection \<open>Thread settings\<close>

text \<open>
  C3 (what the code does).  In a call that passes the checks, with \<open>c1\<close> the context after
  the reset (whose thread settings are those the context had): when neither requested
  count is positive, \<open>llama_set_n_threads\<close> is not called and the later steps, the forward
  pass included, run on \<open>c1\<close>; when at least one is positive, \<open>llama_set_n_threads\<close> is
  called exactly once, with both requested counts as they are, the non-positive one
  included, and the later steps run on the context \<open>llama_set_n_threads(c1, n_threads,
  n_threads_batch)\<close> that the engine makes of them.  The shim never passes the existing
  value of a setting on.
\<close>

theorem embed_text_thread_settings:
  assumes guards: "\<not> model_n_embd m \<le>s 0" "\<not> out_len <s model_n_embd m"
  shows "let r = rm_llama_embed_text E fp (Some c) (Some m) (Some t) a p (Some buf) out_len nt ntb nm;
             c1 = fst (embed_reset E c);
             c2 = (if 0 <s nt \<or> 0 <s ntb then llama_set_n_threads E c1 nt ntb else c1)
         in filter is_set_n_threads (res_calls r)
              = (if 0 <s nt \<or> 0 <s ntb then [Call_set_n_threads nt ntb] else [])
          \<and> ctx_n_threads c1 = ctx_n_threads c \<and> ctx_n_threads_batch c1 = ctx_n_threads_batch c
          \<and> (case model_vocab m of
                None \<Rightarrow> res_ctx r = Some c2
              | Some v \<Rightarrow>
                  (case fst (embed_tokenize E v t a p) of
                     Inl e \<Rightarrow> res_ctx r = Some c2
                   | Inr (tokens, n) \<Rightarrow>
                       res_ctx r = Some (snd (llama_decode E c2 (llama_batch_get_one tokens n)))))"
proof -
  let ?b = "embed_body E fp c m t a p buf out_len nt ntb nm"
  have r: "rm_llama_embed_text E fp (Some c) (Some m) (Some t) a p (Some buf) out_len nt ntb nm
       = \<lparr>res_rc = res_rc ?b, res_ctx = Some (res_ctx ?b), res_out = Some (res_out ?b),
          res_calls = res_calls ?b\<rparr>"
    by (simp add: rm_llama_embed_text_def Let_def)
  have settings: "ctx_n_threads (fst (embed_reset E c)) = ctx_n_threads c"
    "ctx_n_threads_batch (fst (embed_reset E c)) = ctx_n_threads_batch c"
    by (simp_all add: embed_reset_ctx split: option.splits)
  have calls: "filter is_set_n_threads (res_calls ?b)
      = (if 0 <s nt \<or> 0 <s ntb then [Call_set_n_threads nt ntb] else [])"
    by (simp add: embed_body_calls [OF guards] embed_prepare_calls embed_reset_no_set_threads
        embed_tokenize_no_set_threads embed_fetch_no_set_threads Let_def
        split: option.splits sum.splits prod.splits)
  have ctx: "case model_vocab m of
                None \<Rightarrow> res_ctx ?b = fst (embed_prepare E c nt ntb)
              | Some v \<Rightarrow>
                  (case fst (embed_tokenize E v t a p) of
                     Inl e \<Rightarrow> res_ctx ?b = fst (embed_prepare E c nt ntb)
                   | Inr (tokens, n) \<Rightarrow>
                       res_ctx ?b = snd (llama_decode E (fst (embed_prepare E c nt ntb))
                                           (llama_batch_get_one tokens n)))"
    by (simp add: embed_body_ctx [OF guards] split: option.splits sum.splits prod.splits)
  show ?thesis
    unfolding r Let_def using settings calls ctx
    by (simp add: embed_prepare_ctx split: option.splits sum.splits prod.splits)
qed

theorem embed_text_thread_settings_witness:
  "\<not> model_n_embd toy_model \<le>s 0 \<and> \<not> (5 :: int32) <s model_n_embd toy_model
   \<and> ((0 :: int32) <s 4 \<or> (0 :: int32) <s 0)
   \<and> ctx_n_threads_batch (toy_context (Some [7, 7])) = 8
   \<and> filter is_set_n_threads (res_calls (rm_llama_embed_text toy_engine real_arith
        (Some (toy_context (Some [7, 7]))) (Some toy_model) (Some ''hi'') True False
        (Some [9, 9, 9, 9, 9]) 5 4 0 0))
       = [Call_set_n_threads 4 0]
   \<and> res_ctx (rm_llama_embed_text toy_engine real_arith (Some (toy_context (Some [7, 7])))
        (Some toy_model) (Some ''hi'') True False (Some [9, 9, 9, 9, 9]) 5 4 0 0)
       = Some (snd (llama_decode toy_engine
                 (llama_set_n_threads toy_engine
                    (fst (embed_reset toy_engine (toy_context (Some [7, 7])))) 4 0)
                 (llama_batch_get_one [104, 1, 2, 105, 1, 2] 6)))
   \<and> map_option ctx_n_threads_batch (res_ctx (rm_llama_embed_text toy_engine real_arith
        (Some (toy_context (Some [7, 7]))) (Some toy_model) (Some ''hi'') True False
        (Some [9, 9, 9, 9, 9]) 5 4 0 0))
       = Some 0"
proof -
  have g1: "\<not> model_n_embd toy_model \<le>s 0"
    by (simp add: toy_model_def word_sle_eq)
  have g2: "\<not> (5 :: int32) <s model_n_embd toy_model"
    by (simp add: toy_model_def word_sless_alt)
  have pos: "(0 :: int32) <s 4 \<or> (0 :: int32) <s 0"
    by (simp add: word_sless_alt)
  have old: "ctx_n_threads_batch (toy_context (Some [7, 7])) = 8"
    by (simp add: toy_context_def)
  have v: "model_vocab toy_model = Some ()"
    by (simp add: toy_model_def)
  have tk: "fst (embed_tokenize toy_engine () ''hi'' True False) = Inr ([104, 1, 2, 105, 1, 2], 6)"
    by (simp add: run_defs toy_defs)
  from embed_text_thread_settings [OF g1 g2, of toy_engine real_arith
      "toy_context (Some [7, 7])" "''hi''" True False "[9, 9, 9, 9, 9]" 4 0 0]
  have th: "filter is_set_n_threads (res_calls (rm_llama_embed_text toy_engine real_arith
        (Some (toy_context (Some [7, 7]))) (Some toy_model) (Some ''hi'') True False
        (Some [9, 9, 9, 9, 9]) 5 4 0 0))
       = [Call_set_n_threads 4 0]"
    "res_ctx (rm_llama_embed_text toy_engine real_arith (Some (toy_context (Some [7, 7])))
        (Some toy_model) (Some ''hi'') True False (Some [9, 9, 9, 9, 9]) 5 4 0 0)
       = Some (snd (llama_decode toy_engine
                 (llama_set_n_threads toy_engine
                    (fst (embed_reset toy_engine (toy_context (Some [7, 7])))) 4 0)
                 (llama_batch_get_one [104, 1, 2, 105, 1, 2] 6)))"
    using pos by (simp_all add: Let_def v tk)
  have after: "ctx_n_threads_batch (snd (llama_decode toy_engine
                 (llama_set_n_threads toy_engine
                    (fst (embed_reset toy_engine (toy_context (Some [7, 7])))) 4 0)
                 (llama_batch_get_one [104, 1, 2, 105, 1, 2] 6))) = 0"
    by (simp add: run_defs toy_defs)
  show ?thesis
    using g1 g2 pos old th after by simp
qed

subsection \<open>Error paths\<close>

text \<open>
  C4.  Whenever the call returns a non-zero code, whichever the failing step, the
  caller's output buffer holds what it held before the call (and a null \<open>out\<close> is still
  null).
\<close>

theorem embed_text_error_leaves_output_unwritten:
  assumes "res_rc (rm_llama_embed_text E fp ctx model tx a p out out_len nt ntb nm) \<noteq> 0"
  shows "res_out (rm_llama_embed_text E fp ctx model tx a p out out_len nt ntb nm) = out"
  using assms embed_body_error_out [of E fp _ _ _ a p _ out_len nt ntb nm]
  by (auto simp: rm_llama_embed_text_def Let_def split: option.splits)

theorem embed_text_error_leaves_output_unwritten_witness:
  "res_rc (rm_llama_embed_text toy_engine real_arith (Some (toy_context (Some [7, 7])))
            (Some toy_model) (Some []) True False (Some [9, 9, 9, 9, 9]) 5 0 0 2) = - 5
   \<and> res_out (rm_llama_embed_text toy_engine real_arith (Some (toy_context (Some [7, 7])))
            (Some toy_model) (Some []) True False (Some [9, 9, 9, 9, 9]) 5 0 0 2)
       = Some [9, 9, 9, 9, 9]"
proof -
  have rc: "res_rc (rm_llama_embed_text toy_engine real_arith (Some (toy_context (Some [7, 7])))
            (Some toy_model) (Some []) True False (Some [9, 9, 9, 9, 9]) 5 0 0 2) = - 5"
    by (simp add: run_defs toy_defs)
  then have h: "res_rc (rm_llama_embed_text toy_engine real_arith (Some (toy_context (Some [7, 7])))
            (Some toy_model) (Some []) True False (Some [9, 9, 9, 9, 9]) 5 0 0 2) \<noteq> 0"
    by simp
  from embed_text_error_leaves_output_unwritten [OF h] rc show ?thesis
    by simp
qed

text \<open>
  C6.  With non-null arguments and an output buffer shorter than the embedding
  dimension, the call returns \<open>-2\<close>; the only call made is the query of the embedding
  dimension that the check needs: no memory reset, no thread setting, no vocabulary
  fetch, no tokenization, no forward pass.  The context and the output buffer are as
  before.
\<close>

theorem embed_text_output_buffer_guard:
  assumes "out_len <s model_n_embd m"
  shows "rm_llama_embed_text E fp (Some c) (Some m) (Some t) a p (Some buf) out_len nt ntb nm
         = \<lparr>res_rc = - 2, res_ctx = Some c, res_out = Some buf, res_calls = [Call_model_n_embd]\<rparr>"
  using assms by (simp add: rm_llama_embed_text_def embed_body_def)

theorem embed_text_output_buffer_guard_witness:
  "(3 :: int32) <s model_n_embd toy_model \<and>
   rm_llama_embed_text toy_engine real_arith (Some (toy_context (Some [7, 7]))) (Some toy_model)
       (Some ''hello world'') True False (Some [9, 9, 9]) 3 4 4 2
     = \<lparr>res_rc = - 2, res_ctx = Some (toy_context (Some [7, 7])), res_out = Some [9, 9, 9],
        res_calls = [Call_model_n_embd]\<rparr>"
proof -
  have h: "(3 :: int32) <s model_n_embd toy_model"
    by (simp add: toy_model_def word_sless_alt)
  from embed_text_output_buffer_guard [OF h] h show ?thesis by simp
qed

text \<open>
  C10.  A model whose embedding dimension is zero or negative makes the call return
  \<open>-2\<close>, the code of a too small output buffer, whatever \<open>out_len\<close> is; again the only
  call made is the query of the dimension, and context and buffer are as before.
\<close>

theorem embed_text_degenerate_dimension:
  assumes "model_n_embd m \<le>s 0"
  shows "rm_llama_embed_text E fp (Some c) (Some m) (Some t) a p (Some buf) out_len nt ntb nm
         = \<lparr>res_rc = - 2, res_ctx = Some c, res_out = Some buf, res_calls = [Call_model_n_embd]\<rparr>"
  using assms by (simp add: rm_llama_embed_text_def embed_body_def)

theorem embed_text_degenerate_dimension_witness:
  "model_n_embd (toy_model\<lparr>model_n_embd := 0\<rparr>) \<le>s 0 \<and>
   rm_llama_embed_text toy_engine real_arith (Some (toy_context (Some [7, 7])))
       (Some (toy_model\<lparr>model_n_embd := 0\<rparr>)) (Some ''hello world'') True False
       (Some [9, 9, 9, 9, 9]) 2147483647 4 4 2
     = \<lparr>res_rc = - 2, res_ctx = Some (toy_context (Some [7, 7])), res_out = Some [9, 9, 9, 9, 9],
        res_calls = [Call_model_n_embd]\<rparr>"
proof -
  have h: "model_n_embd (toy_model\<lparr>model_n_embd := 0\<rparr>) \<le>s 0"
    by (simp add: word_sle_eq)
  from embed_text_degenerate_dimension [OF h] h show ?thesis by simp
qed

subsection \<open>Fetching and writing the embedding\<close>

text \<open>
  C8.  After a forward pass that returned 0 (leaving the context \<open>c3\<close>): when the pooled
  embedding of sequence 0 is there, it is the one written to the output and
  \<open>llama_get_embeddings\<close> is not called; when it is not, \<open>llama_get_embeddings\<close> is called
  and its result is written; when that is null too, the call returns \<open>-6\<close> and the
  output buffer is as before.
\<close>

theorem embed_text_embedding_retrieval:
  assumes guards: "\<not> model_n_embd m \<le>s 0" "\<not> out_len <s model_n_embd m"
    and vocab: "model_vocab m = Some v"
    and toks: "fst (embed_tokenize E v t a p) = Inr (tokens, n_tokens)"
    and dec: "llama_decode E (fst (embed_prepare E c nt ntb)) (llama_batch_get_one tokens n_tokens)
                = (0, c3)"
  shows "let r = rm_llama_embed_text E fp (Some c) (Some m) (Some t) a p (Some buf) out_len nt ntb nm;
             written = (\<lambda>embd. if nm = 2 then rm_l2_normalize fp buf embd (model_n_embd m)
                               else rm_copy_f32 buf embd (model_n_embd m))
         in (case ctx_embeddings_seq c3 0 of
               Some e \<Rightarrow>
                 res_rc r = 0 \<and> res_out r = Some (written e) \<and>
                 Call_get_embeddings \<notin> set (res_calls r)
             | None \<Rightarrow>
                 Call_get_embeddings \<in> set (res_calls r) \<and>
                 (case ctx_embeddings c3 of
                    Some e \<Rightarrow> res_rc r = 0 \<and> res_out r = Some (written e)
                  | None \<Rightarrow> res_rc r = - 6 \<and> res_out r = Some buf))"
proof -
  obtain calls_t where tk: "embed_tokenize E v t a p = (Inr (tokens, n_tokens), calls_t)"
    using toks by (cases "embed_tokenize E v t a p") auto
  obtain c2 calls_p where pr: "embed_prepare E c nt ntb = (c2, calls_p)"
    by (cases "embed_prepare E c nt ntb") auto
  have nofetch: "Call_get_embeddings \<notin> set calls_p"
    using pr by (auto simp: embed_prepare_def embed_reset_def embed_threads_def Let_def
        split: option.splits if_splits prod.splits)
  have notok: "Call_get_embeddings \<notin> set calls_t"
    using tk by (auto simp: embed_tokenize_def Let_def split: if_splits prod.splits)
  from dec pr have dec': "llama_decode E c2 (llama_batch_get_one tokens n_tokens) = (0, c3)"
    by simp
  show ?thesis
    using guards vocab tk pr dec' nofetch notok
    by (simp add: rm_llama_embed_text_def embed_body_def embed_fetch_def Let_def
        split: option.splits)
qed

theorem embed_text_embedding_retrieval_witness:
  "\<not> model_n_embd toy_model \<le>s 0 \<and> \<not> (5 :: int32) <s model_n_embd toy_model
   \<and> model_vocab toy_model = Some ()
   \<and> fst (embed_tokenize toy_engine () ''hi'' True False) = Inr ([104, 1, 2, 105, 1, 2], 6)
   \<and> llama_decode toy_engine (fst (embed_prepare toy_engine (toy_context (Some [7, 7])) 0 0))
        (llama_batch_get_one [104, 1, 2, 105, 1, 2] 6)
       = (0, (toy_context (Some [104, 1, 2, 105, 1, 2]))
               \<lparr>ctx_embeddings_seq := (\<lambda>seq. if seq = 0 then Some [3, 4, 0, 6] else None)\<rparr>)
   \<and> res_rc (rm_llama_embed_text toy_engine real_arith (Some (toy_context (Some [7, 7])))
        (Some toy_model) (Some ''hi'') True False (Some [9, 9, 9, 9, 9]) 5 0 0 0) = 0
   \<and> res_out (rm_llama_embed_text toy_engine real_arith (Some (toy_context (Some [7, 7])))
        (Some toy_model) (Some ''hi'') True False (Some [9, 9, 9, 9, 9]) 5 0 0 0)
       = Some [3, 4, 0, 6, 9]
   \<and> Call_get_embeddings \<notin> set (res_calls (rm_llama_embed_text toy_engine real_arith
        (Some (toy_context (Some [7, 7]))) (Some toy_model) (Some ''hi'') True False
        (Some [9, 9, 9, 9, 9]) 5 0 0 0))"
proof -
  have g1: "\<not> model_n_embd toy_model \<le>s 0"
    by (simp add: toy_model_def word_sle_eq)
  have g2: "\<not> (5 :: int32) <s model_n_embd toy_model"
    by (simp add: toy_model_def word_sless_alt)
  have v: "model_vocab toy_model = Some ()"
    by (simp add: toy_model_def)
  have tk: "fst (embed_tokenize toy_engine () ''hi'' True False) = Inr ([104, 1, 2, 105, 1, 2], 6)"
    by (simp add: run_defs toy_defs)
  have dec: "llama_decode toy_engine (fst (embed_prepare toy_engine (toy_context (Some [7, 7])) 0 0))
        (llama_batch_get_one [104, 1, 2, 105, 1, 2] 6)
       = (0, (toy_context (Some [104, 1, 2, 105, 1, 2]))
               \<lparr>ctx_embeddings_seq := (\<lambda>seq. if seq = 0 then Some [3, 4, 0, 6] else None)\<rparr>)"
    by (simp add: run_defs toy_defs fun_eq_iff)
  have copy: "rm_copy_f32 [9, 9, 9, 9, 9] [3, 4, 0, 6] (model_n_embd toy_model)
      = [3, 4, 0, 6, 9 :: real]"
    by (simp add: run_defs toy_defs)
  show ?thesis
    using g1 g2 v tk dec copy
      embed_text_embedding_retrieval [OF g1 g2 v tk dec, of real_arith "[9, 9, 9, 9, 9]" 0]
    by (simp add: Let_def)
qed

text \<open>
  C9.  A normalization mode other than 2 is never rejected: the call does exactly what
  it does with mode 0, and when it succeeds the first \<open>n_embd\<close> floats of the output
  buffer are the first \<open>n_embd\<close> floats of the fetched embedding, as they are.
\<close>

theorem embed_text_unrecognized_mode_copies:
  assumes "nm \<noteq> 2"
  shows "rm_llama_embed_text E fp (Some c) (Some m) (Some t) a p (Some buf) out_len nt ntb nm
           = rm_llama_embed_text E fp (Some c) (Some m) (Some t) a p (Some buf) out_len nt ntb 0
         \<and> (res_rc (rm_llama_embed_text E fp (Some c) (Some m) (Some t) a p (Some buf) out_len
                      nt ntb nm) = 0
              \<longrightarrow> (\<exists>c3 embd.
                    res_ctx (rm_llama_embed_text E fp (Some c) (Some m) (Some t) a p (Some buf)
                               out_len nt ntb nm) = Some c3
                  \<and> fst (embed_fetch c3) = Some embd
                  \<and> res_out (rm_llama_embed_text E fp (Some c) (Some m) (Some t) a p (Some buf)
                               out_len nt ntb nm)
                      = Some (take (unat (model_n_embd m)) embd @ drop (unat (model_n_embd m)) buf)))"
proof -
  have same: "embed_body E fp c m t a p buf out_len nt ntb nm
                = embed_body E fp c m t a p buf out_len nt ntb 0"
    using assms
    by (auto simp: embed_body_def Let_def split: prod.splits option.splits sum.splits)
  have copy: "res_rc (embed_body E fp c m t a p buf out_len nt ntb nm) = 0 \<Longrightarrow>
      \<exists>embd. fst (embed_fetch (res_ctx (embed_body E fp c m t a p buf out_len nt ntb nm))) = Some embd \<and>
        res_out (embed_body E fp c m t a p buf out_len nt ntb nm)
          = take (unat (model_n_embd m)) embd @ drop (unat (model_n_embd m)) buf"
    using embed_body_success [of E fp c m t a p buf out_len nt ntb nm] assms
    by (auto simp: rm_copy_f32_def memcpy_f32_def)
  show ?thesis
    using same copy by (simp add: rm_llama_embed_text_def Let_def)
qed

theorem embed_text_unrecognized_mode_copies_witness:
  "(3 :: int32) \<noteq> 2
   \<and> rm_llama_embed_text toy_engine real_arith (Some (toy_context (Some [7, 7])))
        (Some toy_model) (Some ''hi'') True False (Some [9, 9, 9, 9, 9]) 5 0 0 3
       = rm_llama_embed_text toy_engine real_arith (Some (toy_context (Some [7, 7])))
        (Some toy_model) (Some ''hi'') True False (Some [9, 9, 9, 9, 9]) 5 0 0 0
   \<and> res_rc (rm_llama_embed_text toy_engine real_arith (Some (toy_context (Some [7, 7])))
        (Some toy_model) (Some ''hi'') True False (Some [9, 9, 9, 9, 9]) 5 0 0 3) = 0
   \<and> res_out (rm_llama_embed_text toy_engine real_arith (Some (toy_context (Some [7, 7])))
        (Some toy_model) (Some ''hi'') True False (Some [9, 9, 9, 9, 9]) 5 0 0 3)
       = Some [3, 4, 0, 6, 9]"
proof -
  have h: "(3 :: int32) \<noteq> 2"
    by simp
  have run0: "res_rc (rm_llama_embed_text toy_engine real_arith (Some (toy_context (Some [7, 7])))
        (Some toy_model) (Some ''hi'') True False (Some [9, 9, 9, 9, 9]) 5 0 0 0) = 0"
    "res_out (rm_llama_embed_text toy_engine real_arith (Some (toy_context (Some [7, 7])))
        (Some toy_model) (Some ''hi'') True False (Some [9, 9, 9, 9, 9]) 5 0 0 0)
       = Some [3, 4, 0, 6, 9]"
    by (simp_all add: run_defs toy_defs)
  from embed_text_unrecognized_mode_copies [OF h, of toy_engine real_arith
      "toy_context (Some [7, 7])" toy_model "''hi''" True False "[9, 9, 9, 9, 9]" 5 0 0]
  have "rm_llama_embed_text toy_engine real_arith (Some (toy_context (Some [7, 7])))
        (Some toy_model) (Some ''hi'') True False (Some [9, 9, 9, 9, 9]) 5 0 0 3
       = rm_llama_embed_text toy_engine real_arith (Some (toy_context (Some [7, 7])))
        (Some toy_model) (Some ''hi'') True False (Some [9, 9, 9, 9, 9]) 5 0 0 0"
    by blast
  with h run0 show ?thesis
    by simp
qed

subsection \<open>Tokenization\<close>

lemma ucast_text_len: "(ucast (of_nat n :: size_t) :: int32) = of_nat n"
  by (rule bit_word_eqI) (auto simp: bit_simps)

lemma sint_of_int_small:
  "- 2147483648 \<le> c \<Longrightarrow> c < 2147483648 \<Longrightarrow> sint (of_int c :: int32) = c"
  by (simp add: int_word_sint)

lemma sint_min: "sint r = - 2147483648 \<Longrightarrow> r = - 2147483648" for r :: int32
proof -
  assume a: "sint r = - 2147483648"
  have "sint r = sint (- 2147483648 :: int32)" using a by simp
  then show ?thesis by (rule signed_word_eqI)
qed

lemma abs_range:
  "sint r < 0 \<Longrightarrow> r \<noteq> - 2147483648 \<Longrightarrow> \<bar>sint r\<bar> < 2147483648" for r :: int32
proof -
  assume neg: "sint r < 0" and nm: "r \<noteq> - 2147483648"
  have "sint r \<noteq> - 2147483648" using sint_min [of r] nm by blast
  moreover have "- 2147483648 \<le> sint r" using sint_ge [of r] by simp
  ultimately show ?thesis using neg by linarith
qed

lemma neg_spec: "sint r < 0 \<Longrightarrow> - r = (of_int \<bar>sint r\<bar> :: int32)" for r :: int32
  by simp

lemma first_capacity_spec:
  assumes "length text < 2147483640"
  shows "first_capacity text = of_int (max (int (length text) + 8) 16)"
proof -
  have c: "(ucast ((of_nat (length text) :: size_t) + 8) :: int32) = of_int (int (length text) + 8)"
    using ucast_text_len [of "length text + 8"] by simp
  have s: "sint (of_int (int (length text) + 8) :: int32) = int (length text) + 8"
    using assms by (intro sint_of_int_small) auto
  show ?thesis
    unfolding first_capacity_def Let_def c word_sless_alt s
    by (simp add: max_def)
qed

lemma token_bytes_spec:
  assumes "0 \<le> c" "c < 2147483648"
  shows "token_bytes (of_int c) = of_int (4 * c)"
proof -
  have "sint (of_int c :: int32) = c"
    using assms by (intro sint_of_int_small) auto
  then have "(scast (of_int c :: int32) :: size_t) = of_int c"
    by (simp add: scast_eq)
  then show ?thesis
    by (simp add: token_bytes_def)
qed

lemma embed_tokenize_at_most_two:
  "length (filter is_tokenize (snd (embed_tokenize E v t a p))) \<le> 2"
  by (auto simp: embed_tokenize_def Let_def split: if_splits prod.splits)

text \<open>
  C5 (as the code has it).  For a text of fewer than \<open>2^31 - 8\<close> bytes, and a first
  tokenizer result other than \<open>INT32_MIN\<close>, the tokenization of \<open>rm_llama_embed_text\<close> is the
  protocol of section 4.1: first capacity \<open>max(byte_length + 8, 16)\<close>; on a negative
  result a buffer of exactly its absolute value and exactly one more invocation; \<open>-5\<close>
  for a non-positive final count and the distinct \<open>-4\<close> for a failed allocation at
  either point.  The tokenizer is never invoked a third time, for any text.
\<close>

theorem embed_tokenize_refines_spec:
  assumes len: "length tx < 2147483640"
    and ret: "fst (llama_tokenize E v tx (of_int (int (length tx)))
                     (of_int (max (int (length tx) + 8) 16)) a p) \<noteq> - 2147483648"
  shows "embed_tokenize E v tx a p = spec_token_buffer E v tx a p
       \<and> sint (first_capacity tx) = max (int (length tx) + 8) 16
       \<and> length (filter is_tokenize (snd (embed_tokenize E v tx a p))) \<le> 2
       \<and> BufferAllocationFailed \<noteq> EmptyOrFailedTokenization"
proof -
  let ?cap = "max (int (length tx) + 8) 16"
  have cap_range: "0 \<le> ?cap" "?cap < 2147483648"
    using len by auto
  have fc: "first_capacity tx = of_int ?cap"
    by (rule first_capacity_spec [OF len])
  have tl: "(ucast (of_nat (length tx) :: size_t) :: int32) = of_int (int (length tx))"
    by (simp add: ucast_text_len)
  have tb: "token_bytes (of_int ?cap) = of_int (4 * ?cap)"
    by (rule token_bytes_spec [OF cap_range])
  obtain r1 toks1 where t1:
    "llama_tokenize E v tx (of_int (int (length tx))) (of_int ?cap) a p = (r1, toks1)"
    by (cases "llama_tokenize E v tx (of_int (int (length tx))) (of_int ?cap) a p") auto
  from ret t1 have r1: "r1 \<noteq> - 2147483648"
    by simp
  have refine: "embed_tokenize E v tx a p = spec_token_buffer E v tx a p"
  proof (cases "sint r1 < 0")
    case True
    have e: "- r1 = of_int (- sint r1)"
      by simp
    have "sint (- r1) = sint (of_int (- sint r1) :: int32)"
      by (rule arg_cong [OF e])
    also have "\<dots> = - sint r1"
      using abs_range [OF True r1] True by (intro sint_of_int_small) auto
    finally have sn: "sint (- r1) = - sint r1" .
    have "(scast (- r1) :: size_t) = of_int (sint (- r1))"
      by (rule scast_eq)
    also have "\<dots> = of_int (- sint r1)"
      by (simp only: sn)
    also have "\<dots> = - scast r1"
      by simp
    finally have "(scast (- r1) :: size_t) = - scast r1" .
    then have tbn: "token_bytes (- r1) = - (4 * scast r1)"
      by (simp add: token_bytes_def)
    show ?thesis
      unfolding embed_tokenize_def spec_token_buffer_def Let_def fc tl tb t1
      using True
      by (simp add: word_sless_alt word_sle_eq tbn BufferAllocationFailed_def
          EmptyOrFailedTokenization_def split: prod.splits)
  next
    case False
    show ?thesis
      unfolding embed_tokenize_def spec_token_buffer_def Let_def fc tl tb t1
      using False
      by (simp add: word_sless_alt word_sle_eq BufferAllocationFailed_def
          EmptyOrFailedTokenization_def)
  qed
  have sc: "sint (first_capacity tx) = ?cap"
    unfolding fc using cap_range by (intro sint_of_int_small) auto
  show ?thesis
    using refine sc embed_tokenize_at_most_two [of E v tx a p]
    by (simp add: BufferAllocationFailed_def EmptyOrFailedTokenization_def)
qed

theorem embed_tokenize_refines_spec_witness:
  "length ''hello world'' < 2147483640
   \<and> fst (llama_tokenize toy_engine () ''hello world'' (of_int (int (length ''hello world'')))
            (of_int (max (int (length ''hello world'') + 8) 16)) True False) = - 33
   \<and> embed_tokenize toy_engine () ''hello world'' True False
       = spec_token_buffer toy_engine () ''hello world'' True False
   \<and> snd (embed_tokenize toy_engine () ''hello world'' True False)
       = [Call_malloc 76, Call_tokenize 11 19, Call_free, Call_malloc 132, Call_tokenize 11 33]
   \<and> sint (first_capacity ''hello world'') = 19"
proof -
  have len: "length ''hello world'' < 2147483640"
    by simp
  have r: "fst (llama_tokenize toy_engine () ''hello world'' (of_int (int (length ''hello world'')))
            (of_int (max (int (length ''hello world'') + 8) 16)) True False) = - 33"
    by (simp add: toy_defs)
  then have ret: "fst (llama_tokenize toy_engine () ''hello world''
            (of_int (int (length ''hello world'')))
            (of_int (max (int (length ''hello world'') + 8) 16)) True False) \<noteq> - 2147483648"
    by simp
  have calls: "snd (embed_tokenize toy_engine () ''hello world'' True False)
       = [Call_malloc 76, Call_tokenize 11 19, Call_free, Call_malloc 132, Call_tokenize 11 33]"
    by (simp add: run_defs toy_defs)
  from embed_tokenize_refines_spec [OF len ret] len r calls show ?thesis
    by simp
qed

text \<open>
  C5 as stated fails at the edge of the 32-bit range.  For a text of \<open>2^31 - 8\<close> bytes,
  \<open>byte_length + 8\<close> is \<open>2^31\<close>, which \<open>(int32_t) (text_len + 8)\<close> turns into \<open>INT32_MIN\<close>,
  so the first invocation gets capacity 16; and the tokenizer's answer \<open>INT32_MIN\<close> is
  negated to itself, so the buffer asked for next is not of \<open>2^31\<close> tokens
  (\<open>8589934592\<close> bytes) but of \<open>2^64 - 2^33\<close> bytes.
\<close>

theorem embed_tokenize_capacity_wraps:
  "max (int (length (replicate 2147483640 (CHR ''a''))) + 8) 16 = 2147483648
   \<and> embed_tokenize overflow_engine () (replicate 2147483640 (CHR ''a'')) True False
       = (Inl (- 4), [Call_malloc 64, Call_tokenize 2147483640 16, Call_free,
                      Call_malloc 18446744065119617024])
   \<and> \<bar>sint (- 2147483648 :: int32)\<bar> = 2147483648"
  by (simp add: run_defs toy_defs overflow_engine_def)

subsection \<open>Normalization\<close>

lemma l2_sum_loop_foldl:
  "i \<le> n \<Longrightarrow> n \<le> length src \<Longrightarrow>
   l2_sum_loop fp src n i acc
     = foldl (\<lambda>s x. d_add fp s (d_mul fp (f_to_d fp x) (f_to_d fp x))) acc (drop i (take n src))"
proof (induction fp src n i acc rule: l2_sum_loop.induct)
  case (1 fp src n i acc)
  show ?case
  proof (cases "i < n")
    case True
    then have "drop i (take n src) = src ! i # drop (Suc i) (take n src)"
      using "1.prems" by (simp add: Cons_nth_drop_Suc [symmetric])
    with True "1.IH" "1.prems" show ?thesis
      by (subst l2_sum_loop.simps) (simp add: Let_def)
  next
    case False
    with "1.prems" show ?thesis
      by (subst l2_sum_loop.simps) simp
  qed
qed

lemma l2_scale_loop_map:
  "i \<le> n \<Longrightarrow> n \<le> length src \<Longrightarrow> n \<le> length dst \<Longrightarrow>
   l2_scale_loop fp inv_norm src n i dst
     = take i dst @ map (\<lambda>x. f_mul fp x inv_norm) (drop i (take n src)) @ drop n dst"
proof (induction fp inv_norm src n i dst rule: l2_scale_loop.induct)
  case (1 fp inv_norm src n i dst)
  show ?case
  proof (cases "i < n")
    case True
    have d: "drop i (take n src) = src ! i # drop (Suc i) (take n src)"
      using True "1.prems" by (simp add: Cons_nth_drop_Suc [symmetric])
    have t: "take (Suc i) (dst[i := f_mul fp (src ! i) inv_norm])
               = take i dst @ [f_mul fp (src ! i) inv_norm]"
      using True "1.prems" by (simp add: take_Suc_conv_app_nth)
    have r: "drop n (dst[i := f_mul fp (src ! i) inv_norm]) = drop n dst"
      using True by simp
    have "l2_scale_loop fp inv_norm src n i dst
            = l2_scale_loop fp inv_norm src n (Suc i) (dst[i := f_mul fp (src ! i) inv_norm])"
      using True by (subst l2_scale_loop.simps) simp
    also have "\<dots> = take (Suc i) (dst[i := f_mul fp (src ! i) inv_norm])
                   @ map (\<lambda>x. f_mul fp x inv_norm) (drop (Suc i) (take n src))
                   @ drop n (dst[i := f_mul fp (src ! i) inv_norm])"
      using True "1.prems" by (intro "1.IH") auto
    finally show ?thesis
      by (simp add: d t r)
  next
    case False
    with "1.prems" show ?thesis
      by (subst l2_scale_loop.simps) simp
  qed
qed

lemma unat_pos_sint: "0 < sint n \<Longrightarrow> unat n = nat (sint n)" for n :: int32
proof -
  assume pos: "0 < sint n"
  have lt: "sint n < 2 ^ 32"
    using sint_lt [of n] by simp
  have "uint n = take_bit 32 (sint n)"
    using uint_sint [of n] by simp
  also have "\<dots> = sint n"
    using pos lt by (intro take_bit_int_eq_self) auto
  finally show ?thesis
    by (simp add: unat_eq_nat_uint)
qed

lemma foldl_all_zero:
  assumes "\<forall>x \<in> set xs. g x = z" and "f z z = z"
  shows "foldl (\<lambda>s x. f s (g x)) z xs = z"
  using assms by (induction xs) simp_all

text \<open>
  C7.  With \<open>k\<close> the number of floats asked for (\<open>n\<close> when positive, else 0) and both
  buffers holding at least \<open>k\<close> floats: for \<open>n \<le> 0\<close> nothing is written; otherwise the norm
  is the square root of the sum, accumulated in \<open>double\<close> from \<open>0.0\<close>, of the squares of
  the first \<open>n\<close> floats; when \<open>norm <= 0.0\<close> the first \<open>n\<close> floats of the output are those of
  the input, as they are; otherwise each is the input float times the one \<open>float\<close> value
  \<open>(float)(1.0 / norm)\<close>.  The arithmetic is a parameter \<open>fp\<close>.  For an input whose squares
  are all \<open>0.0\<close>, in an arithmetic where \<open>0.0 + 0.0 = 0.0\<close>, \<open>sqrt(0.0) = 0.0\<close> and
  \<open>0.0 <= 0.0\<close> (as in IEEE 754), the output is the copy of the input: zeros, no division.
\<close>

theorem rm_l2_normalize_cases:
  assumes src: "nat (sint n) \<le> length src" and dst: "nat (sint n) \<le> length dst"
  shows "let k = nat (sint n);
             square_sum = foldl (\<lambda>s x. d_add fp s (d_mul fp (f_to_d fp x) (f_to_d fp x)))
                            (d_zero fp) (take k src);
             nrm = d_sqrt fp square_sum;
             inv_norm = d_to_f fp (d_div fp (d_one fp) nrm)
         in rm_l2_normalize fp dst src n
              = (if n \<le>s 0 then dst
                 else if d_le fp nrm (d_zero fp) then take k src @ drop k dst
                 else map (\<lambda>x. f_mul fp x inv_norm) (take k src) @ drop k dst)
            \<and> ((\<forall>x \<in> set (take k src). d_mul fp (f_to_d fp x) (f_to_d fp x) = d_zero fp)
                 \<and> d_add fp (d_zero fp) (d_zero fp) = d_zero fp
                 \<and> d_sqrt fp (d_zero fp) = d_zero fp
                 \<and> d_le fp (d_zero fp) (d_zero fp)
               \<longrightarrow> rm_l2_normalize fp dst src n = take k src @ drop k dst)"
proof -
  let ?k = "nat (sint n)"
  let ?sq = "foldl (\<lambda>s x. d_add fp s (d_mul fp (f_to_d fp x) (f_to_d fp x))) (d_zero fp)
               (take ?k src)"
  let ?inv = "d_to_f fp (d_div fp (d_one fp) (d_sqrt fp ?sq))"
  have main: "rm_l2_normalize fp dst src n
      = (if n \<le>s 0 then dst
         else if d_le fp (d_sqrt fp ?sq) (d_zero fp) then take ?k src @ drop ?k dst
         else map (\<lambda>x. f_mul fp x ?inv) (take ?k src) @ drop ?k dst)"
  proof (cases "n \<le>s 0")
    case True
    then show ?thesis by (simp add: rm_l2_normalize_def)
  next
    case False
    then have pos: "0 < sint n"
      by (simp add: word_sle_eq)
    then have k: "unat n = ?k"
      by (rule unat_pos_sint)
    have nrm: "l2_norm fp src n = d_sqrt fp ?sq"
      using src by (simp add: l2_norm_def k l2_sum_loop_foldl)
    have scale: "l2_scale_loop fp ?inv src ?k 0 dst
                   = map (\<lambda>x. f_mul fp x ?inv) (take ?k src) @ drop ?k dst"
      using src dst by (simp add: l2_scale_loop_map)
    show ?thesis
      using False
      by (simp add: rm_l2_normalize_def Let_def nrm k scale rm_copy_f32_def memcpy_f32_def)
  qed
  have zero: "rm_l2_normalize fp dst src n = take ?k src @ drop ?k dst"
    if z: "\<forall>x \<in> set (take ?k src). d_mul fp (f_to_d fp x) (f_to_d fp x) = d_zero fp"
      "d_add fp (d_zero fp) (d_zero fp) = d_zero fp"
      "d_sqrt fp (d_zero fp) = d_zero fp"
      "d_le fp (d_zero fp) (d_zero fp)"
  proof -
    have "?sq = d_zero fp"
      using foldl_all_zero [of "take ?k src" "\<lambda>x. d_mul fp (f_to_d fp x) (f_to_d fp x)"
          "d_zero fp" "d_add fp"] z(1,2)
      by simp
    then show ?thesis
      using z(3,4) by (cases "n \<le>s 0") (simp_all add: main word_sle_eq)
  qed
  show ?thesis
    using main zero by (simp add: Let_def)
qed

theorem rm_l2_normalize_cases_witness:
  "nat (sint (4 :: int32)) \<le> length [3, 4, 0, 0 :: real]
   \<and> nat (sint (4 :: int32)) \<le> length [9, 9, 9, 9, 9 :: real]
   \<and> \<not> (4 :: int32) \<le>s 0
   \<and> \<not> d_le real_arith (d_sqrt real_arith 25) (d_zero real_arith)
   \<and> rm_l2_normalize real_arith [9, 9, 9, 9, 9] [3, 4, 0, 0] 4 = [3 / 5, 4 / 5, 0, 0, 9]
   \<and> d_le real_arith (d_sqrt real_arith 0) (d_zero real_arith)
   \<and> rm_l2_normalize real_arith [9, 9, 9, 9, 9] [0, 0, 0, 0] 4 = [0, 0, 0, 0, 9]"
proof -
  have k: "nat (sint (4 :: int32)) = 4"
    by simp
  have pos: "\<not> (4 :: int32) \<le>s 0"
    by (simp add: word_sle_eq)
  have root: "sqrt 25 = 5"
    by (rule real_sqrt_unique) auto
  have a: "nat (sint (4 :: int32)) \<le> length [3, 4, 0, 0 :: real]"
    and b: "nat (sint (4 :: int32)) \<le> length [9, 9, 9, 9, 9 :: real]"
    and z: "nat (sint (4 :: int32)) \<le> length [0, 0, 0, 0 :: real]"
    by simp_all
  show ?thesis
    using pos root
      rm_l2_normalize_cases [OF a b, of real_arith]
      rm_l2_normalize_cases [OF z b, of real_arith]
    by (simp add: Let_def k real_arith_def)
qed

end
